theory Spec2Isabelle
  imports Complex_Main
begin

section \<open>Adaptive sync controller\<close>

text \<open>
  The controller of \<^verbatim>\<open>adaptive-sync.ts\<close>. A JavaScript \<^verbatim>\<open>number\<close> is modelled as a
  \<^typ>\<open>real\<close>: the thresholds, clamps and comparisons are those of the source, rounding of
  IEEE doubles is not modelled. \<^verbatim>\<open>Date.now()\<close> is the explicit argument \<open>now\<close>.
\<close>

record AdaptiveSyncConfig =
  smallDriftThreshold :: real
  mediumDriftThreshold :: real
  largeDriftThreshold :: real
  minPlaybackRate :: real
  maxPlaybackRate :: real
  correctionFactor :: real
  maxLatencyCompensation :: real
  minLatencyCompensation :: real

definition DEFAULT_SYNC_CONFIG :: AdaptiveSyncConfig where
  "DEFAULT_SYNC_CONFIG =
     \<lparr> smallDriftThreshold = 300,
       mediumDriftThreshold = 1500,
       largeDriftThreshold = 5000,
       minPlaybackRate = 0.9,
       maxPlaybackRate = 1.1,
       correctionFactor = 0.4,
       maxLatencyCompensation = 2000,
       minLatencyCompensation = 10 \<rparr>"

datatype SyncAction =
    none
  | adjust_speed real
  | smooth_seek real real
  | hard_seek real

text \<open>
  \<open>adjust_speed rate\<close>, \<open>smooth_seek targetTime duration\<close> and \<open>hard_seek targetTime\<close>.

  The fields of the class that the latency and drift computations read or write. The timer
  handles and the saved playback rate belong to the DOM side and are left out.
\<close>

record AdaptiveSyncController =
  config :: AdaptiveSyncConfig
  clockOffset :: real
  clockOffsetSamples :: "real list"
  latencySamples :: "real list"

definition maxClockSamples :: nat where
  "maxClockSamples = 10"

definition maxLatencySamples :: nat where
  "maxLatencySamples = 20"

text \<open>The constructor called with no argument: the default configuration, empty windows.\<close>

definition new_controller :: AdaptiveSyncController where
  "new_controller =
     \<lparr> config = DEFAULT_SYNC_CONFIG, clockOffset = 0,
       clockOffsetSamples = [], latencySamples = [] \<rparr>"

text \<open>
  \<^verbatim>\<open>updateClockOffset\<close>: push the sample, shift the oldest one out beyond ten, and take the
  element at index \<open>floor (length / 2)\<close> of the numerically sorted copy. The window is not
  empty after the push, so the index is in range.
\<close>

definition updateClockOffset :: "real \<Rightarrow> AdaptiveSyncController \<Rightarrow> AdaptiveSyncController" where
  "updateClockOffset sample c =
     (let pushed = clockOffsetSamples c @ [sample];
          samples = (if length pushed > maxClockSamples then tl pushed else pushed);
          sorted = sort samples
      in c\<lparr> clockOffsetSamples := samples,
             clockOffset := sorted ! (length sorted div 2) \<rparr>)"

definition recordLatency :: "real \<Rightarrow> AdaptiveSyncController \<Rightarrow> AdaptiveSyncController" where
  "recordLatency latency c =
     (let pushed = latencySamples c @ [latency]
      in c\<lparr> latencySamples :=
               (if length pushed > maxLatencySamples then tl pushed else pushed) \<rparr>)"

definition calculateLatency ::
  "real \<Rightarrow> real \<Rightarrow> AdaptiveSyncController \<Rightarrow> real \<times> AdaptiveSyncController" where
  "calculateLatency now eventTimestamp c =
     (let rawLatency = now - eventTimestamp;
          c1 = (if rawLatency < - 100 then updateClockOffset rawLatency c
                else if rawLatency > maxLatencyCompensation (config c)
                then updateClockOffset (rawLatency - 200) c
                else c);
          adjustedLatency = rawLatency - clockOffset c1;
          clampedLatency = max 0 (min adjustedLatency (maxLatencyCompensation (config c1)))
      in (clampedLatency, recordLatency clampedLatency c1))"

definition compensateForLatency ::
  "real \<Rightarrow> real \<Rightarrow> real \<Rightarrow> bool \<Rightarrow> AdaptiveSyncController \<Rightarrow> real \<times> AdaptiveSyncController" where
  "compensateForLatency now targetTime eventTimestamp isPlaying c =
     (let (latency, c1) = calculateLatency now eventTimestamp c
      in if latency < minLatencyCompensation (config c1) \<or> \<not> isPlaying
         then (targetTime, c1)
         else (targetTime + latency / 1000, c1))"

definition calculateSyncAction :: "AdaptiveSyncConfig \<Rightarrow> real \<Rightarrow> real \<Rightarrow> bool \<Rightarrow> SyncAction" where
  "calculateSyncAction cfg currentTime targetTime isPlaying =
     (let drift = targetTime - currentTime;
          absDrift = \<bar>drift\<bar> * 1000
      in if \<not> isPlaying \<or> absDrift < 30 then none
         else if absDrift > largeDriftThreshold cfg then hard_seek targetTime
         else if absDrift > mediumDriftThreshold cfg
              then smooth_seek targetTime (min 400 (absDrift / 4))
         else if absDrift > smallDriftThreshold cfg
              then adjust_speed
                     (if drift > 0
                      then min (maxPlaybackRate cfg) (1 + (absDrift / 1000) * correctionFactor cfg)
                      else max (minPlaybackRate cfg) (1 - (absDrift / 1000) * correctionFactor cfg))
         else adjust_speed
                (if drift > 0
                 then min 1.05 (1 + (absDrift / 1000) * 0.15)
                 else max 0.95 (1 - (absDrift / 1000) * 0.15)))"

definition calculateCompensatedSyncAction ::
  "real \<Rightarrow> real \<Rightarrow> real \<Rightarrow> real \<Rightarrow> bool \<Rightarrow> AdaptiveSyncController
     \<Rightarrow> SyncAction \<times> AdaptiveSyncController" where
  "calculateCompensatedSyncAction now currentTime targetTime eventTimestamp isPlaying c =
     (let (compensatedTarget, c1) =
            compensateForLatency now targetTime eventTimestamp isPlaying c
      in (calculateSyncAction (config c1) currentTime compensatedTarget isPlaying, c1))"


section \<open>Message protocol (shared/events.ts)\<close>

datatype SyncEventType = PLAY | PAUSE | SEEK | AD_STARTED | AD_ENDED

datatype Platform = youtube | netflix | crunchyroll

record SyncEvent =
  ev_type :: SyncEventType
  ev_time :: real
  ev_timestamp :: real
  ev_videoId :: "string option"

record NavigationEvent =
  nav_url :: string
  nav_platform :: Platform
  nav_timestamp :: real

record UserInfo =
  user_oderId :: string
  user_name :: string
  user_canControl :: bool
  user_isHost :: bool

text \<open>
  Client to server messages, one constructor per interface, the fields in the order of the
  interface (optional fields as options).
\<close>

datatype ClientMessage =
    CreateRoomMessage string "string option"
  | JoinRoomMessage string string "string option"
  | LeaveRoomMessage string string
  | SyncEventMessage string string SyncEvent
  | NavigateMessage string string NavigationEvent
  | RequestStateMessage string string
  | StateResponseMessage string string bool real
  | KickUserMessage string string string
  | SetPermissionMessage string string string bool
  | SetNameMessage string string
  | GetUsersMessage string string
  | HeartbeatMessage string
  | JoinerReadyMessage string string

text \<open>The \<^verbatim>\<open>type\<close> discriminator of a client message.\<close>

fun client_type :: "ClientMessage \<Rightarrow> string" where
  "client_type (CreateRoomMessage _ _) = ''CREATE_ROOM''"
| "client_type (JoinRoomMessage _ _ _) = ''JOIN_ROOM''"
| "client_type (LeaveRoomMessage _ _) = ''LEAVE_ROOM''"
| "client_type (SyncEventMessage _ _ _) = ''SYNC_EVENT''"
| "client_type (NavigateMessage _ _ _) = ''NAVIGATE''"
| "client_type (RequestStateMessage _ _) = ''REQUEST_STATE''"
| "client_type (StateResponseMessage _ _ _ _) = ''STATE_RESPONSE''"
| "client_type (KickUserMessage _ _ _) = ''KICK_USER''"
| "client_type (SetPermissionMessage _ _ _ _) = ''SET_PERMISSION''"
| "client_type (SetNameMessage _ _) = ''SET_NAME''"
| "client_type (GetUsersMessage _ _) = ''GET_USERS''"
| "client_type (HeartbeatMessage _) = ''HEARTBEAT''"
| "client_type (JoinerReadyMessage _ _) = ''JOINER_READY''"

text \<open>Server to client messages, again with the fields in the order of the interfaces.\<close>

datatype ServerMessage =
    RoomCreatedMessage string bool string
  | RoomJoinedMessage string int bool "UserInfo list" string
  | RoomLeftMessage string
  | ServerSyncEventMessage string string SyncEvent
  | ServerNavigateMessage string string NavigationEvent
  | StateRequestMessage string string
  | StateUpdateMessage string bool real
  | UserJoinedMessage string string string int "UserInfo list"
  | UserLeftMessage string string int "string option" "UserInfo list"
  | UserKickedMessage string string string
  | UsersListMessage string "UserInfo list"
  | PermissionChangedMessage string string bool
  | ErrorMessage string string
  | HeartbeatAckMessage
  | JoinerReadyNotification string string

definition RECONNECT_DELAY_MS :: nat where
  "RECONNECT_DELAY_MS = 3000"

definition MAX_RECONNECT_ATTEMPTS :: nat where
  "MAX_RECONNECT_ATTEMPTS = 5"

section \<open>Background service worker: session state\<close>

datatype ReadyState = CONNECTING | OPEN | CLOSING | CLOSED

text \<open>
  The global session. \<open>socket\<close> holds the ready state of the WebSocket when there is one,
  \<open>heartbeatInterval\<close> says whether the interval timer is set.
\<close>

record SessionState =
  oderId :: string
  socket :: "ReadyState option"
  roomId :: "string option"
  isHost :: bool
  userCount :: int
  users :: "UserInfo list"
  connected :: bool
  reconnectAttempts :: nat
  heartbeatInterval :: bool
  userName :: string
  canControl :: bool
  isReconnecting :: bool
  lastSuccessfulConnection :: real
  pendingMessages :: "ClientMessage list"
  connectionId :: string
  currentUrl :: "string option"
  currentPlatform :: "Platform option"

text \<open>
  JavaScript truthiness of \<^verbatim>\<open>session.roomId\<close>, a \<^verbatim>\<open>string | null\<close>: \<^verbatim>\<open>null\<close> and the empty
  string are falsy.
\<close>

definition truthy :: "string option \<Rightarrow> bool" where
  "truthy v = (case v of None \<Rightarrow> False | Some str \<Rightarrow> str \<noteq> [])"

text \<open>
  The session the module starts with; \<^verbatim>\<open>generateUserId()\<close> and \<^verbatim>\<open>crypto.randomUUID()\<close> give
  the two identifiers.
\<close>

definition initial_session :: "string \<Rightarrow> string \<Rightarrow> SessionState" where
  "initial_session generatedUserId uuid =
     \<lparr> oderId = generatedUserId,
       socket = None,
       roomId = None,
       isHost = False,
       userCount = 0,
       users = [],
       connected = False,
       reconnectAttempts = 0,
       heartbeatInterval = False,
       userName = [],
       canControl = True,
       isReconnecting = False,
       lastSuccessfulConnection = 0,
       pendingMessages = [],
       connectionId = uuid,
       currentUrl = None,
       currentPlatform = None \<rparr>"

datatype OperationType = CREATE_ROOM | JOIN_ROOM | LEAVE_ROOM

record PendingOperation =
  op_type :: OperationType
  op_timestamp :: real
  op_roomId :: "string option"

text \<open>The status record that \<^verbatim>\<open>broadcastStatusToAllTabs\<close> builds from the session.\<close>

record StatusPayload =
  st_connected :: bool
  st_roomId :: "string option"
  st_isHost :: bool
  st_userCount :: int
  st_users :: "UserInfo list"
  st_userId :: string
  st_canControl :: bool
  st_syncStatus :: string

text \<open>Messages sent to the tabs and the popup.\<close>

datatype TabMessage =
    APPLY_SYNC SyncEvent
  | NAVIGATE NavigationEvent
  | START_PLAYBACK_FOR_JOINER string
  | KICKED string
  | ERROR string string
  | CONNECTION_STATUS_reconnecting nat nat
  | CONNECTION_STATUS_failed string
  | STATUS_UPDATE StatusPayload

text \<open>
  What a handler asks of the browser, in the order of the calls: a frame written to the
  socket, an asynchronous call started (it runs after the handler has returned), a timer
  set or cleared, a write to the extension's storage.
\<close>

datatype Effect =
    SocketSend ClientMessage
  | ForwardToAllTabs TabMessage
  | BroadcastStatus TabMessage
  | RequestPlayerState
  | SaveSessionState
  | StorageRemove
  | ScheduleReconnect nat
  | ConnectionTimeoutSet
  | ConnectionTimeoutCleared

text \<open>
  The parts of the browser that the code cannot decide: whether \<^verbatim>\<open>socket.send\<close> throws on a
  message, whether \<^verbatim>\<open>new WebSocket\<close> throws, and the text \<^verbatim>\<open>JSON.stringify\<close> gives a message.
\<close>

record Browser =
  sendThrows :: "ClientMessage \<Rightarrow> bool"
  constructorThrows :: bool
  JSON_stringify :: "ClientMessage \<Rightarrow> string"

text \<open>
  The module's global variables: the session, the room operation lock and the set of active
  tabs (in insertion order, as a JavaScript \<^verbatim>\<open>Set\<close> iterates).
\<close>

record Worker =
  session :: SessionState
  pendingOperation :: "PendingOperation option"
  activeTabs :: "nat list"

subsection \<open>Room operation lock\<close>

text \<open>A held lock is an object, so \<^verbatim>\<open>if (pendingOperation)\<close> tests for \<^verbatim>\<open>null\<close> only.\<close>

definition acquireRoomLock :: "real \<Rightarrow> PendingOperation \<Rightarrow> Worker \<Rightarrow> bool \<times> Worker" where
  "acquireRoomLock now operation w =
     (case pendingOperation w of
        Some p \<Rightarrow>
          (let age = now - op_timestamp p
           in if age > 5000 then (True, w\<lparr>pendingOperation := Some operation\<rparr>)
              else (False, w))
      | None \<Rightarrow> (True, w\<lparr>pendingOperation := Some operation\<rparr>))"

definition releaseRoomLock :: "Worker \<Rightarrow> Worker" where
  "releaseRoomLock w = w\<lparr>pendingOperation := None\<rparr>"

subsection \<open>Connection manager\<close>

definition status_of :: "SessionState \<Rightarrow> StatusPayload" where
  "status_of s =
     \<lparr> st_connected = connected s,
       st_roomId = roomId s,
       st_isHost = isHost s,
       st_userCount = userCount s,
       st_users = users s,
       st_userId = oderId s,
       st_canControl = canControl s,
       st_syncStatus =
         (if connected s then (if truthy (roomId s) then ''OK'' else ''DISCONNECTED'')
          else ''DISCONNECTED'') \<rparr>"

definition broadcastStatusToAllTabs :: "SessionState \<Rightarrow> Effect" where
  "broadcastStatusToAllTabs s = BroadcastStatus (STATUS_UPDATE (status_of s))"

definition stopHeartbeat :: "SessionState \<Rightarrow> SessionState" where
  "stopHeartbeat s = (if heartbeatInterval s then s\<lparr>heartbeatInterval := False\<rparr> else s)"

definition startHeartbeat :: "SessionState \<Rightarrow> SessionState" where
  "startHeartbeat s = (stopHeartbeat s)\<lparr>heartbeatInterval := True\<rparr>"

definition shouldQueueMessage :: "ClientMessage \<Rightarrow> bool" where
  "shouldQueueMessage message =
     (if client_type message = ''HEARTBEAT'' \<or> client_type message = ''STATE_RESPONSE''
      then False else True)"

definition queueMessage :: "Browser \<Rightarrow> ClientMessage \<Rightarrow> SessionState \<Rightarrow> SessionState" where
  "queueMessage b message s =
     (let isDuplicate =
            list_ex (\<lambda>m. client_type m = client_type message
                        \<and> JSON_stringify b m = JSON_stringify b message)
                    (pendingMessages s);
          s1 = (if \<not> isDuplicate
                then s\<lparr>pendingMessages := pendingMessages s @ [message]\<rparr> else s)
      in if length (pendingMessages s1) > 50
         then s1\<lparr>pendingMessages := tl (pendingMessages s1)\<rparr> else s1)"

text \<open>
  The reconnect delay of \<^verbatim>\<open>onclose\<close> and \<^verbatim>\<open>handleConnectionFailure\<close>, for the attempt counter
  after its increment.
\<close>

definition reconnectDelay :: "nat \<Rightarrow> nat" where
  "reconnectDelay attempts = min (RECONNECT_DELAY_MS * 2 ^ (attempts - 1)) 30000"

definition handleConnectionFailure :: "SessionState \<Rightarrow> SessionState \<times> Effect list" where
  "handleConnectionFailure s =
     (let s1 = stopHeartbeat (s\<lparr>connected := False, socket := None\<rparr>)
      in if truthy (roomId s1) \<and> reconnectAttempts s1 < MAX_RECONNECT_ATTEMPTS
         then (let s2 = s1\<lparr>reconnectAttempts := reconnectAttempts s1 + 1,
                            isReconnecting := True\<rparr>
               in (s2, [ScheduleReconnect (reconnectDelay (reconnectAttempts s2)),
                        broadcastStatusToAllTabs s2]))
         else (s1, [broadcastStatusToAllTabs s1]))"

text \<open>
  \<^verbatim>\<open>connect\<close> up to the installation of the handlers; the handlers themselves are
  \<open>socket_onopen\<close> and \<open>socket_onclose\<close> below.
\<close>

definition connect :: "Browser \<Rightarrow> SessionState \<Rightarrow> SessionState \<times> Effect list" where
  "connect b s =
     (if socket s = Some OPEN then (s, [])
      else if socket s = Some CONNECTING then (s, [])
      else if constructorThrows b then handleConnectionFailure s
      else (s\<lparr>socket := Some CONNECTING\<rparr>, [ConnectionTimeoutSet]))"

definition sendMessage ::
  "Browser \<Rightarrow> ClientMessage \<Rightarrow> SessionState \<Rightarrow> SessionState \<times> Effect list" where
  "sendMessage b message s =
     (if socket s = Some OPEN
      then (if \<not> sendThrows b message then (s, [SocketSend message])
            else if isReconnecting s \<and> shouldQueueMessage message
            then (queueMessage b message s, [])
            else (s, []))
      else if isReconnecting s \<and> shouldQueueMessage message
      then (queueMessage b message s, [])
      else if \<not> connected s \<and> \<not> isReconnecting s
      then (let (s1, es) = connect b s
            in if shouldQueueMessage message then (queueMessage b message s1, es)
               else (s1, es))
      else (s, []))"

text \<open>The loop of \<^verbatim>\<open>flushPendingMessages\<close> over the copied queue.\<close>

fun sendAll ::
  "Browser \<Rightarrow> ClientMessage list \<Rightarrow> SessionState \<Rightarrow> SessionState \<times> Effect list" where
  "sendAll b [] s = (s, [])"
| "sendAll b (message # messages) s =
     (let (s1, es1) = sendMessage b message s;
          (s2, es2) = sendAll b messages s1
      in (s2, es1 @ es2))"

definition flushPendingMessages :: "Browser \<Rightarrow> SessionState \<Rightarrow> SessionState \<times> Effect list" where
  "flushPendingMessages b s =
     (if length (pendingMessages s) = 0 then (s, [])
      else (let messages = pendingMessages s
            in sendAll b messages (s\<lparr>pendingMessages := []\<rparr>)))"

text \<open>
  The \<^verbatim>\<open>onopen\<close> handler that \<^verbatim>\<open>connect\<close> installs. The browser calls it with the socket in
  state \<open>OPEN\<close>.
\<close>

definition socket_onopen :: "Browser \<Rightarrow> real \<Rightarrow> SessionState \<Rightarrow> SessionState \<times> Effect list" where
  "socket_onopen b now s =
     (let s1 = s\<lparr>connected := True, reconnectAttempts := 0, isReconnecting := False,
                 lastSuccessfulConnection := now\<rparr>;
          (s2, es2) = flushPendingMessages b s1;
          (s3, es3) =
            (if truthy (roomId s2) \<and> isReconnecting s2
             then (case roomId s2 of
                     Some room \<Rightarrow>
                       sendMessage b (JoinRoomMessage room (oderId s2) (Some (userName s2))) s2
                   | None \<Rightarrow> (s2, []))
             else (s2, []));
          s4 = startHeartbeat s3
      in (s4, [ConnectionTimeoutCleared] @ es2 @ es3 @ [broadcastStatusToAllTabs s4]))"

text \<open>The \<^verbatim>\<open>onclose\<close> handler, called with the close code of the event.\<close>

definition socket_onclose :: "nat \<Rightarrow> SessionState \<Rightarrow> SessionState \<times> Effect list" where
  "socket_onclose code s =
     (let s1 = stopHeartbeat (s\<lparr>connected := False, socket := None\<rparr>);
          es1 = [ConnectionTimeoutCleared, broadcastStatusToAllTabs s1]
      in if code = 1000 \<or> \<not> truthy (roomId s1) then (s1, es1)
         else if reconnectAttempts s1 < MAX_RECONNECT_ATTEMPTS
         then (let s2 = s1\<lparr>reconnectAttempts := reconnectAttempts s1 + 1,
                            isReconnecting := True\<rparr>;
                   delay = reconnectDelay (reconnectAttempts s2)
               in (s2, es1 @
                       [ForwardToAllTabs
                          (CONNECTION_STATUS_reconnecting (reconnectAttempts s2)
                             MAX_RECONNECT_ATTEMPTS),
                        ScheduleReconnect delay]))
         else (let s2 = s1\<lparr>isReconnecting := False\<rparr>;
                   s3 = s2\<lparr>roomId := None, isHost := False, userCount := 0, users := []\<rparr>
               in (s3, es1 @
                       [ForwardToAllTabs
                          (CONNECTION_STATUS_failed
                             ''Could not reconnect to server. Please reload the page.''),
                        broadcastStatusToAllTabs s3])))"

subsection \<open>Message router\<close>

text \<open>\<^verbatim>\<open>String.prototype.includes\<close>: whether the text occurs somewhere in the string.\<close>

fun startsWith :: "string \<Rightarrow> string \<Rightarrow> bool" where
  "startsWith str [] = True"
| "startsWith [] (c # cs) = False"
| "startsWith (d # ds) (c # cs) = (d = c \<and> startsWith ds cs)"

fun str_includes :: "string \<Rightarrow> string \<Rightarrow> bool" where
  "str_includes [] search = startsWith [] search"
| "str_includes (d # ds) search = (startsWith (d # ds) search \<or> str_includes ds search)"

text \<open>
  \<^verbatim>\<open>handleServerMessage\<close>, case by case in the order of the \<^verbatim>\<open>switch\<close>. The second
  \<^verbatim>\<open>JOINER_READY_NOTIFICATION\<close> case of the source is never reached: the first one matches.
  \<^verbatim>\<open>forwardToAllTabs\<close>, \<^verbatim>\<open>requestPlayerState\<close> and \<^verbatim>\<open>saveSessionState\<close> are asynchronous and are
  only started here.
\<close>

fun handleServerMessage :: "real \<Rightarrow> ServerMessage \<Rightarrow> Worker \<Rightarrow> Worker \<times> Effect list" where
  "handleServerMessage now (RoomCreatedMessage m_roomId m_isHost m_oderId) w =
     (let s = session w;
          s1 = s\<lparr>oderId := m_oderId, roomId := Some m_roomId, isHost := m_isHost,
                 userCount := 1\<rparr>;
          s2 = s1\<lparr>users :=
                 [\<lparr> user_oderId = oderId s1,
                    user_name = (if userName s1 \<noteq> [] then userName s1 else ''You''),
                    user_canControl = True, user_isHost = True \<rparr>]\<rparr>
      in (releaseRoomLock (w\<lparr>session := s2\<rparr>),
          [SaveSessionState, broadcastStatusToAllTabs s2]))"
| "handleServerMessage now (RoomJoinedMessage m_roomId m_userCount m_isHost m_users m_oderId) w =
     (let s = session w;
          s1 = s\<lparr>oderId := m_oderId, roomId := Some m_roomId, isHost := m_isHost,
                 userCount := m_userCount, users := m_users\<rparr>;
          s2 = (case find (\<lambda>u. user_oderId u = m_oderId) m_users of
                  Some myUser \<Rightarrow> s1\<lparr>canControl := user_canControl myUser\<rparr>
                | None \<Rightarrow> s1)
      in (releaseRoomLock (w\<lparr>session := s2\<rparr>),
          [SaveSessionState, broadcastStatusToAllTabs s2]))"
| "handleServerMessage now (RoomLeftMessage m_roomId) w =
     (let s1 = (session w)\<lparr>roomId := None, isHost := False, userCount := 0, users := []\<rparr>
      in (releaseRoomLock (w\<lparr>session := s1\<rparr>),
          [StorageRemove, broadcastStatusToAllTabs s1]))"
| "handleServerMessage now (ServerSyncEventMessage m_roomId m_oderId m_event) w =
     (if m_oderId = oderId (session w) then (w, [])
      else (w, [ForwardToAllTabs (APPLY_SYNC m_event)]))"
| "handleServerMessage now (ServerNavigateMessage m_roomId m_oderId m_navigation) w =
     (if m_oderId = oderId (session w) then (w, [])
      else (let s1 = (session w)\<lparr>currentUrl := Some (nav_url m_navigation),
                                  currentPlatform := Some (nav_platform m_navigation)\<rparr>
            in (w\<lparr>session := s1\<rparr>, [ForwardToAllTabs (NAVIGATE m_navigation)])))"
| "handleServerMessage now (StateRequestMessage m_roomId m_requesterId) w =
     (w, [RequestPlayerState])"
| "handleServerMessage now (JoinerReadyNotification m_roomId m_joinerUserId) w =
     (w, [ForwardToAllTabs (START_PLAYBACK_FOR_JOINER m_joinerUserId)])"
| "handleServerMessage now (StateUpdateMessage m_roomId m_isPlaying m_currentTime) w =
     (let syncEvent = \<lparr> ev_type = (if m_isPlaying then PLAY else PAUSE),
                         ev_time = m_currentTime, ev_timestamp = now, ev_videoId = None \<rparr>
      in (w, [ForwardToAllTabs (APPLY_SYNC syncEvent)]))"
| "handleServerMessage now (UserJoinedMessage m_roomId m_oderId m_userName m_userCount m_users) w =
     (let s1 = (session w)\<lparr>userCount := m_userCount, users := m_users\<rparr>
      in (w\<lparr>session := s1\<rparr>,
          broadcastStatusToAllTabs s1 # (if isHost s1 then [RequestPlayerState] else [])))"
| "handleServerMessage now (UserLeftMessage m_roomId m_oderId m_userCount m_newHostId m_users) w =
     (let s1 = (session w)\<lparr>userCount := m_userCount, users := m_users\<rparr>;
          s2 = (if m_newHostId = Some (oderId s1) then s1\<lparr>isHost := True\<rparr> else s1)
      in (w\<lparr>session := s2\<rparr>, [broadcastStatusToAllTabs s2]))"
| "handleServerMessage now (UserKickedMessage m_roomId m_oderId m_reason) w =
     (if m_oderId = oderId (session w)
      then (let s1 = (session w)\<lparr>roomId := None, isHost := False, userCount := 0,
                                  users := []\<rparr>
            in (w\<lparr>session := s1\<rparr>,
                [broadcastStatusToAllTabs s1, ForwardToAllTabs (KICKED m_reason)]))
      else (w, []))"
| "handleServerMessage now (UsersListMessage m_roomId m_users) w =
     (let s1 = (session w)\<lparr>users := m_users\<rparr>;
          s2 = (case find (\<lambda>u. user_oderId u = oderId s1) m_users of
                  Some me \<Rightarrow> s1\<lparr>canControl := user_canControl me, isHost := user_isHost me\<rparr>
                | None \<Rightarrow> s1)
      in (w\<lparr>session := s2\<rparr>, [broadcastStatusToAllTabs s2]))"
| "handleServerMessage now (PermissionChangedMessage m_roomId m_oderId m_canControl) w =
     (let s1 = (if m_oderId = oderId (session w)
                then (session w)\<lparr>canControl := m_canControl\<rparr> else session w)
      in (w\<lparr>session := s1\<rparr>, [broadcastStatusToAllTabs s1]))"
| "handleServerMessage now (ErrorMessage m_code m_message) w =
     (let w1 = releaseRoomLock w
      in if m_code = ''ROOM_NOT_FOUND'' \<or> str_includes m_message ''does not exist''
         then (let s1 = (session w1)\<lparr>roomId := None, isHost := False, userCount := 0,
                                     users := []\<rparr>
               in (w1\<lparr>session := s1\<rparr>,
                   [broadcastStatusToAllTabs s1, ForwardToAllTabs (ERROR m_code m_message)]))
         else (w1, [ForwardToAllTabs (ERROR m_code m_message)]))"
| "handleServerMessage now HeartbeatAckMessage w = (w, [])"

text \<open>
  \<^verbatim>\<open>forwardToAllTabs\<close> itself: one \<^verbatim>\<open>chrome.tabs.sendMessage\<close> per active tab, in order, then one
  \<^verbatim>\<open>chrome.runtime.sendMessage\<close> for the popup. A tab whose send throws (\<open>dead\<close>) is removed
  from the active tabs afterwards. The result is the list of sends and the remaining tabs.
\<close>

datatype Recipient = Tab nat | Runtime

definition forwardToAllTabs ::
  "(nat \<Rightarrow> bool) \<Rightarrow> TabMessage \<Rightarrow> nat list \<Rightarrow> (Recipient \<times> TabMessage) list \<times> nat list" where
  "forwardToAllTabs dead message tabs =
     (let deadTabs = filter dead tabs
      in (map (\<lambda>tabId. (Tab tabId, message)) tabs @ [(Runtime, message)],
          filter (\<lambda>tabId. tabId \<notin> set deadTabs) tabs))"

subsection \<open>Observing a run of close events\<close>

text \<open>
  The delays of the reconnects a list of effects schedules, the number of permanent-failure
  notifications in it, and the handler \<open>socket_onclose\<close> run on the close events of
  successive sockets (no socket of the run reaches \<open>OPEN\<close>).
\<close>

fun scheduledDelays :: "Effect list \<Rightarrow> nat list" where
  "scheduledDelays [] = []"
| "scheduledDelays (ScheduleReconnect delay # es) = delay # scheduledDelays es"
| "scheduledDelays (e # es) = scheduledDelays es"

fun failureNotices :: "Effect list \<Rightarrow> nat" where
  "failureNotices [] = 0"
| "failureNotices (ForwardToAllTabs (CONNECTION_STATUS_failed text) # es) = Suc (failureNotices es)"
| "failureNotices (e # es) = failureNotices es"

fun closeRun :: "nat list \<Rightarrow> SessionState \<Rightarrow> SessionState \<times> Effect list" where
  "closeRun [] s = (s, [])"
| "closeRun (code # codes) s =
     (let (s1, es1) = socket_onclose code s;
          (s2, es2) = closeRun codes s1
      in (s2, es1 @ es2))"

section \<open>Properties\<close>

subsection \<open>Drift classification\<close>

text \<open>
  Claim C1, as stated, fails on the two upper band edges: the code compares with \<open>>\<close>, so a
  drift of exactly 1500 ms is still corrected by speed and a drift of exactly 5000 ms is
  still a smooth seek. Both drifts are also computed exactly in binary floating point.
\<close>

theorem C1_counterexample:
  "1500 \<le> \<bar>(1.5::real) - 0\<bar> * 1000 \<and> \<bar>(1.5::real) - 0\<bar> * 1000 < 5000
   \<and> calculateSyncAction DEFAULT_SYNC_CONFIG 0 1.5 True = adjust_speed 1.1
   \<and> 5000 \<le> \<bar>(5::real) - 0\<bar> * 1000
   \<and> calculateSyncAction DEFAULT_SYNC_CONFIG 0 5 True = smooth_seek 5 400"
  by (simp add: calculateSyncAction_def DEFAULT_SYNC_CONFIG_def Let_def)

text \<open>
  Claim C1, amended: with the default configuration and \<open>isPlaying\<close>, for the drift
  \<open>d = \<bar>targetTime - currentTime\<bar> * 1000\<close> the action is \<open>none\<close> when \<open>d < 30\<close>; a speed
  adjustment with \<open>\<bar>rate - 1\<bar> \<le> 0.05\<close> when \<open>30 \<le> d < 300\<close>; a speed adjustment with the
  rate within the configured bounds when \<open>300 \<le> d \<le> 1500\<close>; a smooth seek to the target of
  at most 400 ms when \<open>1500 < d \<le> 5000\<close>; a hard seek to the target when \<open>d > 5000\<close>. Whenever
  the speed is adjusted, the rate is above 1 when the target is ahead and below 1 when it
  is behind.
\<close>

theorem C1_calculateSyncAction_bands:
  fixes currentTime targetTime :: real
  defines "d \<equiv> \<bar>targetTime - currentTime\<bar> * 1000"
  defines "a \<equiv> calculateSyncAction DEFAULT_SYNC_CONFIG currentTime targetTime True"
  shows "(d < 30 \<longrightarrow> a = none)
       \<and> (30 \<le> d \<and> d < 300 \<longrightarrow> (case a of adjust_speed r \<Rightarrow> \<bar>r - 1\<bar> \<le> 0.05 | _ \<Rightarrow> False))
       \<and> (300 \<le> d \<and> d \<le> 1500 \<longrightarrow>
            (case a of adjust_speed r \<Rightarrow>
               minPlaybackRate DEFAULT_SYNC_CONFIG \<le> r \<and> r \<le> maxPlaybackRate DEFAULT_SYNC_CONFIG
             | _ \<Rightarrow> False))
       \<and> (1500 < d \<and> d \<le> 5000 \<longrightarrow>
            (case a of smooth_seek t dur \<Rightarrow> t = targetTime \<and> dur \<le> 400 | _ \<Rightarrow> False))
       \<and> (5000 < d \<longrightarrow> a = hard_seek targetTime)
       \<and> (\<forall>r. a = adjust_speed r \<longrightarrow>
             (0 < targetTime - currentTime \<longrightarrow> 1 < r) \<and> (targetTime - currentTime < 0 \<longrightarrow> r < 1))"
  unfolding d_def a_def calculateSyncAction_def DEFAULT_SYNC_CONFIG_def Let_def
  by (auto simp: abs_if min_def max_def split: if_splits)

text \<open>The bands at the scenarios of the test suite, one input for each.\<close>

theorem C1_calculateSyncAction_bands_witness:
  "calculateSyncAction DEFAULT_SYNC_CONFIG 10 10.02 True = none
   \<and> calculateSyncAction DEFAULT_SYNC_CONFIG 10 10.1 True = adjust_speed 1.015
   \<and> calculateSyncAction DEFAULT_SYNC_CONFIG 10 10.5 True = adjust_speed 1.1
   \<and> calculateSyncAction DEFAULT_SYNC_CONFIG 10.5 10 True = adjust_speed 0.9
   \<and> calculateSyncAction DEFAULT_SYNC_CONFIG 10 13 True = smooth_seek 13 400
   \<and> calculateSyncAction DEFAULT_SYNC_CONFIG 10 20 True = hard_seek 20"
  using C1_calculateSyncAction_bands [where currentTime = 10 and targetTime = "10.02"]
    C1_calculateSyncAction_bands [where currentTime = 10 and targetTime = "10.1"]
    C1_calculateSyncAction_bands [where currentTime = 10 and targetTime = "10.5"]
    C1_calculateSyncAction_bands [where currentTime = "10.5" and targetTime = 10]
    C1_calculateSyncAction_bands [where currentTime = 10 and targetTime = 13]
    C1_calculateSyncAction_bands [where currentTime = 10 and targetTime = 20]
  by (simp add: calculateSyncAction_def DEFAULT_SYNC_CONFIG_def Let_def)

subsection \<open>Latency compensation\<close>

lemma compensateForLatency_playing:
  assumes "clockOffset c = 0" and "config c = DEFAULT_SYNC_CONFIG"
    and "minLatencyCompensation (config c) \<le> L" and "L \<le> maxLatencyCompensation (config c)"
  shows "fst (compensateForLatency now t (now - L) True c) = t + L / 1000"
proof -
  from assms have L: "10 \<le> L" "L \<le> 2000"
    by (simp_all add: DEFAULT_SYNC_CONFIG_def)
  then have "calculateLatency now (now - L) c = (L, recordLatency L c)"
    using assms(1,2) by (simp add: calculateLatency_def Let_def DEFAULT_SYNC_CONFIG_def)
  moreover have "config (recordLatency L c) = config c"
    by (simp add: recordLatency_def Let_def)
  ultimately show ?thesis
    using L assms(2) by (simp add: compensateForLatency_def DEFAULT_SYNC_CONFIG_def)
qed

lemma compensateForLatency_paused:
  "fst (compensateForLatency now t eventTimestamp False c) = t"
  by (simp add: compensateForLatency_def split: prod.splits)

text \<open>
  Claim C3: for a controller with the default configuration, an empty clock-offset window
  and clock offset 0, every latency \<open>L\<close> between the minimum (10 ms) and the maximum
  (2000 ms) compensation and every target time \<open>t\<close>, \<open>compensateForLatency\<close> of an event
  stamped \<open>now - L\<close> while playing returns \<open>t + L / 1000\<close> (exactly, over the reals); and when
  not playing it returns \<open>t\<close> for every timestamp and every controller state.
\<close>

theorem C3_compensateForLatency:
  "(clockOffsetSamples c = [] \<and> clockOffset c = 0 \<and> config c = DEFAULT_SYNC_CONFIG
      \<and> minLatencyCompensation (config c) \<le> L \<and> L \<le> maxLatencyCompensation (config c)
     \<longrightarrow> fst (compensateForLatency now t (now - L) True c) = t + L / 1000)
   \<and> fst (compensateForLatency now t eventTimestamp False c) = t"
  using compensateForLatency_playing [of c L now t]
    compensateForLatency_paused [of now t eventTimestamp c]
  by blast

text \<open>A fresh controller, an event 100 ms old, and a paused event.\<close>

theorem C3_compensateForLatency_witness:
  "fst (compensateForLatency 5000 10 (5000 - 100) True new_controller) = 10 + 100 / 1000
   \<and> fst (compensateForLatency 5000 10 1000 False new_controller) = 10"
proof -
  have "clockOffsetSamples new_controller = [] \<and> clockOffset new_controller = 0
      \<and> config new_controller = DEFAULT_SYNC_CONFIG
      \<and> minLatencyCompensation (config new_controller) \<le> 100
      \<and> 100 \<le> maxLatencyCompensation (config new_controller)"
    by (simp add: new_controller_def DEFAULT_SYNC_CONFIG_def)
  then show ?thesis
    using C3_compensateForLatency [of new_controller 100 5000 10 1000] by blast
qed

subsection \<open>Room operation lock\<close>

text \<open>
  Claim C5: \<open>acquireRoomLock\<close> returns false and leaves the worker (and so the pending
  operation) as it is whenever a lock is held whose age, \<open>now\<close> minus its timestamp, is at
  most 5000 ms; it installs the operation and returns true whenever no lock is held or the
  held lock is older than 5000 ms; \<open>releaseRoomLock\<close> clears the lock whatever the state,
  touches nothing else, and is idempotent.
\<close>

theorem C5_room_lock:
  "(pendingOperation w = Some p \<and> now - op_timestamp p \<le> 5000
      \<longrightarrow> acquireRoomLock now operation w = (False, w))
   \<and> (pendingOperation w = None \<or> (pendingOperation w = Some p \<and> now - op_timestamp p > 5000)
      \<longrightarrow> acquireRoomLock now operation w = (True, w\<lparr>pendingOperation := Some operation\<rparr>))
   \<and> pendingOperation (releaseRoomLock w) = None
   \<and> session (releaseRoomLock w) = session w
   \<and> activeTabs (releaseRoomLock w) = activeTabs w
   \<and> releaseRoomLock (releaseRoomLock w) = releaseRoomLock w"
  by (auto simp: acquireRoomLock_def releaseRoomLock_def Let_def)

text \<open>A lock 5000 ms old refuses the second operation, a lock 5001 ms old is replaced.\<close>

theorem C5_room_lock_witness:
  "acquireRoomLock 6000
     \<lparr>op_type = JOIN_ROOM, op_timestamp = 6000, op_roomId = Some ''ABCD1234''\<rparr>
     \<lparr>session = initial_session ''user_1'' ''c1'',
      pendingOperation = Some \<lparr>op_type = CREATE_ROOM, op_timestamp = 1000, op_roomId = None\<rparr>,
      activeTabs = []\<rparr>
   = (False,
      \<lparr>session = initial_session ''user_1'' ''c1'',
       pendingOperation = Some \<lparr>op_type = CREATE_ROOM, op_timestamp = 1000, op_roomId = None\<rparr>,
       activeTabs = []\<rparr>)
   \<and> acquireRoomLock 6001
     \<lparr>op_type = JOIN_ROOM, op_timestamp = 6001, op_roomId = Some ''ABCD1234''\<rparr>
     \<lparr>session = initial_session ''user_1'' ''c1'',
      pendingOperation = Some \<lparr>op_type = CREATE_ROOM, op_timestamp = 1000, op_roomId = None\<rparr>,
      activeTabs = []\<rparr>
   = (True,
      \<lparr>session = initial_session ''user_1'' ''c1'',
       pendingOperation =
         Some \<lparr>op_type = JOIN_ROOM, op_timestamp = 6001, op_roomId = Some ''ABCD1234''\<rparr>,
       activeTabs = []\<rparr>)"
  using C5_room_lock
    [of "\<lparr>session = initial_session ''user_1'' ''c1'',
      pendingOperation = Some \<lparr>op_type = CREATE_ROOM, op_timestamp = 1000, op_roomId = None\<rparr>,
      activeTabs = []\<rparr>"
      "\<lparr>op_type = CREATE_ROOM, op_timestamp = 1000, op_roomId = None\<rparr>" 6000
      "\<lparr>op_type = JOIN_ROOM, op_timestamp = 6000, op_roomId = Some ''ABCD1234''\<rparr>"]
   C5_room_lock
    [of "\<lparr>session = initial_session ''user_1'' ''c1'',
      pendingOperation = Some \<lparr>op_type = CREATE_ROOM, op_timestamp = 1000, op_roomId = None\<rparr>,
      activeTabs = []\<rparr>"
      "\<lparr>op_type = CREATE_ROOM, op_timestamp = 1000, op_roomId = None\<rparr>" 6001
      "\<lparr>op_type = JOIN_ROOM, op_timestamp = 6001, op_roomId = Some ''ABCD1234''\<rparr>"]
  by simp

subsection \<open>Connection manager: the pending queue\<close>

lemma pendingMessages_stopHeartbeat [simp]:
  "pendingMessages (stopHeartbeat s) = pendingMessages s"
  by (simp add: stopHeartbeat_def)

lemma pendingMessages_handleConnectionFailure:
  "pendingMessages (fst (handleConnectionFailure s)) = pendingMessages s"
  by (simp add: handleConnectionFailure_def Let_def)

lemma pendingMessages_connect: "pendingMessages (fst (connect b s)) = pendingMessages s"
  by (simp add: connect_def pendingMessages_handleConnectionFailure)

lemma queueMessage_cases:
  "pendingMessages (queueMessage b message s) =
     (let q = pendingMessages s;
          q1 = (if list_ex (\<lambda>m. client_type m = client_type message
                               \<and> JSON_stringify b m = JSON_stringify b message) q
                then q else q @ [message])
      in if length q1 > 50 then tl q1 else q1)"
  by (simp add: queueMessage_def Let_def)

lemma queueMessage_length:
  "length (pendingMessages s) \<le> 50 \<Longrightarrow> length (pendingMessages (queueMessage b message s)) \<le> 50"
  by (simp add: queueMessage_cases Let_def)

lemma queueMessage_durable:
  assumes "shouldQueueMessage message" and "\<forall>m \<in> set (pendingMessages s). shouldQueueMessage m"
  shows "\<forall>m \<in> set (pendingMessages (queueMessage b message s)). shouldQueueMessage m"
proof -
  have "set (pendingMessages (queueMessage b message s)) \<subseteq> insert message (set (pendingMessages s))"
    by (auto simp: queueMessage_cases Let_def dest: list.set_sel(2) [rotated])
  with assms show ?thesis by blast
qed

lemma sendMessage_queue:
  "pendingMessages (fst (sendMessage b message s)) = pendingMessages s
   \<or> (shouldQueueMessage message
      \<and> (\<exists>s1. pendingMessages s1 = pendingMessages s
            \<and> pendingMessages (fst (sendMessage b message s))
                = pendingMessages (queueMessage b message s1)))"
proof -
  have c: "pendingMessages (fst (connect b s)) = pendingMessages s"
    by (rule pendingMessages_connect)
  show ?thesis
    unfolding sendMessage_def
    by (cases "connect b s") (use c in \<open>auto simp: Let_def\<close>)
qed

lemma sendMessage_durable:
  assumes "\<forall>m \<in> set (pendingMessages s). shouldQueueMessage m"
  shows "\<forall>m \<in> set (pendingMessages (fst (sendMessage b message s))). shouldQueueMessage m"
  using sendMessage_queue [of b message s] assms queueMessage_durable [of message _ b]
  by (metis)

lemma sendMessage_length:
  assumes "length (pendingMessages s) \<le> 50"
  shows "length (pendingMessages (fst (sendMessage b message s))) \<le> 50"
  using sendMessage_queue [of b message s] assms queueMessage_length [of _ b message]
  by (metis)

lemma sendMessage_not_durable:
  assumes "client_type message = ''HEARTBEAT'' \<or> client_type message = ''STATE_RESPONSE''"
  shows "pendingMessages (fst (sendMessage b message s)) = pendingMessages s"
proof -
  from assms have "\<not> shouldQueueMessage message" by (auto simp: shouldQueueMessage_def)
  then show ?thesis using sendMessage_queue [of b message s] by blast
qed

lemma sendAll_queue_invariant:
  assumes "\<forall>m \<in> set (pendingMessages s). shouldQueueMessage m"
    and "length (pendingMessages s) \<le> 50"
  shows "(\<forall>m \<in> set (pendingMessages (fst (sendAll b messages s))). shouldQueueMessage m)
       \<and> length (pendingMessages (fst (sendAll b messages s))) \<le> 50"
  using assms
proof (induction messages arbitrary: s)
  case Nil
  then show ?case by simp
next
  case (Cons message messages)
  obtain s1 es1 where step: "sendMessage b message s = (s1, es1)"
    by (cases "sendMessage b message s")
  have "\<forall>m \<in> set (pendingMessages s1). shouldQueueMessage m"
    using sendMessage_durable [OF Cons.prems(1), of b message] step by simp
  moreover have "length (pendingMessages s1) \<le> 50"
    using sendMessage_length [OF Cons.prems(2), of b message] step by simp
  ultimately show ?case
    using Cons.IH [of s1] step by (simp add: split_beta)
qed

lemma flushPendingMessages_queue_invariant:
  "(\<forall>m \<in> set (pendingMessages (fst (flushPendingMessages b s))). shouldQueueMessage m)
   \<and> length (pendingMessages (fst (flushPendingMessages b s))) \<le> 50"
proof (cases "pendingMessages s")
  case Nil
  then show ?thesis by (simp add: flushPendingMessages_def)
next
  case (Cons m ms)
  then show ?thesis
    using sendAll_queue_invariant [of "s\<lparr>pendingMessages := []\<rparr>" b "pendingMessages s"]
    by (simp add: flushPendingMessages_def)
qed

text \<open>
  Claim C6: the pending queue holds durable kinds only: \<open>sendMessage\<close> (the only caller of
  \<open>queueMessage\<close>, each call behind \<open>shouldQueueMessage\<close>) keeps a queue of durable messages
  durable and leaves the queue as it is for a \<^verbatim>\<open>HEARTBEAT\<close> or a \<^verbatim>\<open>STATE_RESPONSE\<close>, and a
  flush leaves a durable queue behind. A queue of at most 50 entries has at most 50 after
  \<open>queueMessage\<close> and after \<open>sendMessage\<close>; on a full queue a new message is appended and
  the oldest entry dropped; a message whose type and \<^verbatim>\<open>JSON.stringify\<close> text equal those of a
  queued one is not added.
\<close>

theorem C6_pending_queue:
  "((\<forall>m \<in> set (pendingMessages s). shouldQueueMessage m)
      \<longrightarrow> (\<forall>m \<in> set (pendingMessages (fst (sendMessage b message s))). shouldQueueMessage m))
   \<and> (\<forall>m \<in> set (pendingMessages (fst (flushPendingMessages b s))). shouldQueueMessage m)
   \<and> (client_type message = ''HEARTBEAT'' \<or> client_type message = ''STATE_RESPONSE''
      \<longrightarrow> pendingMessages (fst (sendMessage b message s)) = pendingMessages s)
   \<and> (length (pendingMessages s) \<le> 50
      \<longrightarrow> length (pendingMessages (queueMessage b message s)) \<le> 50
        \<and> length (pendingMessages (fst (sendMessage b message s))) \<le> 50)
   \<and> (length (pendingMessages s) = 50
        \<and> \<not> list_ex (\<lambda>m. client_type m = client_type message
                          \<and> JSON_stringify b m = JSON_stringify b message) (pendingMessages s)
      \<longrightarrow> pendingMessages (queueMessage b message s) = tl (pendingMessages s) @ [message])
   \<and> (length (pendingMessages s) \<le> 50
        \<and> list_ex (\<lambda>m. client_type m = client_type message
                        \<and> JSON_stringify b m = JSON_stringify b message) (pendingMessages s)
      \<longrightarrow> pendingMessages (queueMessage b message s) = pendingMessages s)"
proof (intro conjI impI)
  assume "\<forall>m \<in> set (pendingMessages s). shouldQueueMessage m"
  then show "\<forall>m \<in> set (pendingMessages (fst (sendMessage b message s))). shouldQueueMessage m"
    by (rule sendMessage_durable)
next
  show "\<forall>m \<in> set (pendingMessages (fst (flushPendingMessages b s))). shouldQueueMessage m"
    using flushPendingMessages_queue_invariant [of b s] by blast
next
  assume "client_type message = ''HEARTBEAT'' \<or> client_type message = ''STATE_RESPONSE''"
  then show "pendingMessages (fst (sendMessage b message s)) = pendingMessages s"
    by (rule sendMessage_not_durable)
next
  assume "length (pendingMessages s) \<le> 50"
  then show "length (pendingMessages (queueMessage b message s)) \<le> 50"
    by (rule queueMessage_length)
next
  assume "length (pendingMessages s) \<le> 50"
  then show "length (pendingMessages (fst (sendMessage b message s))) \<le> 50"
    by (rule sendMessage_length)
next
  assume "length (pendingMessages s) = 50
        \<and> \<not> list_ex (\<lambda>m. client_type m = client_type message
                          \<and> JSON_stringify b m = JSON_stringify b message) (pendingMessages s)"
  then show "pendingMessages (queueMessage b message s) = tl (pendingMessages s) @ [message]"
    by (cases "pendingMessages s") (auto simp: queueMessage_cases Let_def)
next
  assume "length (pendingMessages s) \<le> 50
        \<and> list_ex (\<lambda>m. client_type m = client_type message
                        \<and> JSON_stringify b m = JSON_stringify b message) (pendingMessages s)"
  then show "pendingMessages (queueMessage b message s) = pendingMessages s"
    by (simp add: queueMessage_cases Let_def)
qed

text \<open>
  A full queue of fifty \<^verbatim>\<open>SET_NAME\<close> messages during a reconnect: a new name drops the
  oldest entry, a queued name is not added again, a heartbeat is not queued.
\<close>

theorem C6_pending_queue_witness:
  fixes b0 :: Browser and s50 :: SessionState
  defines "b0 \<equiv> \<lparr>sendThrows = (\<lambda>m. False), constructorThrows = False,
                  JSON_stringify = (\<lambda>m. case m of SetNameMessage u n \<Rightarrow> n | _ \<Rightarrow> [])\<rparr>"
  defines "s50 \<equiv> (initial_session ''user_1'' ''c1'')
                    \<lparr>isReconnecting := True,
                     pendingMessages :=
                       map (\<lambda>n. SetNameMessage ''user_1'' (replicate n CHR ''a'')) [0..<50]\<rparr>"
  shows "pendingMessages (queueMessage b0 (SetNameMessage ''user_1'' (replicate 50 CHR ''a'')) s50)
           = tl (pendingMessages s50) @ [SetNameMessage ''user_1'' (replicate 50 CHR ''a'')]
     \<and> length (pendingMessages
                 (queueMessage b0 (SetNameMessage ''user_1'' (replicate 50 CHR ''a'')) s50)) \<le> 50
     \<and> pendingMessages (queueMessage b0 (SetNameMessage ''user_1'' (replicate 7 CHR ''a'')) s50)
           = pendingMessages s50
     \<and> pendingMessages (fst (sendMessage b0 (HeartbeatMessage ''user_1'') s50))
           = pendingMessages s50
     \<and> list_all shouldQueueMessage
          (pendingMessages
             (fst (sendMessage b0 (SetNameMessage ''user_1'' (replicate 50 CHR ''a'')) s50)))"
proof -
  have len: "length (pendingMessages s50) = 50"
    by (simp add: s50_def)
  have fresh: "\<not> list_ex (\<lambda>m. client_type m = client_type (SetNameMessage ''user_1'' (replicate 50 CHR ''a''))
                          \<and> JSON_stringify b0 m = JSON_stringify b0 (SetNameMessage ''user_1'' (replicate 50 CHR ''a'')))
                 (pendingMessages s50)"
    by (simp add: s50_def b0_def list_ex_iff)
  have dup: "list_ex (\<lambda>m. client_type m = client_type (SetNameMessage ''user_1'' (replicate 7 CHR ''a''))
                          \<and> JSON_stringify b0 m = JSON_stringify b0 (SetNameMessage ''user_1'' (replicate 7 CHR ''a'')))
                 (pendingMessages s50)"
    by (simp add: s50_def b0_def list_ex_iff)
  have durable: "\<forall>m \<in> set (pendingMessages s50). shouldQueueMessage m"
    by (auto simp: s50_def shouldQueueMessage_def)
  have hb: "client_type (HeartbeatMessage ''user_1'') = ''HEARTBEAT''" by simp
  have le: "length (pendingMessages s50) \<le> 50"
    using len by simp
  let ?new = "SetNameMessage ''user_1'' (replicate 50 CHR ''a'')"
  let ?old = "SetNameMessage ''user_1'' (replicate 7 CHR ''a'')"
  have 1: "pendingMessages (queueMessage b0 ?new s50) = tl (pendingMessages s50) @ [?new]"
    using C6_pending_queue [of s50 b0 ?new] len fresh by blast
  have 2: "length (pendingMessages (queueMessage b0 ?new s50)) \<le> 50"
    using C6_pending_queue [of s50 b0 ?new] le by blast
  have 3: "pendingMessages (queueMessage b0 ?old s50) = pendingMessages s50"
    using C6_pending_queue [of s50 b0 ?old] le dup by blast
  have 4: "pendingMessages (fst (sendMessage b0 (HeartbeatMessage ''user_1'') s50))
             = pendingMessages s50"
    using C6_pending_queue [of s50 b0 "HeartbeatMessage ''user_1''"] hb by blast
  have "\<forall>m \<in> set (pendingMessages (fst (sendMessage b0 ?new s50))). shouldQueueMessage m"
    using C6_pending_queue [of s50 b0 ?new] durable by blast
  then have 5: "list_all shouldQueueMessage (pendingMessages (fst (sendMessage b0 ?new s50)))"
    by (simp add: list_all_iff)
  from 1 2 3 4 5 show ?thesis by blast
qed

subsection \<open>Connection manager: the open event\<close>

lemma sendAll_open:
  "socket s = Some OPEN \<Longrightarrow> \<not> isReconnecting s \<Longrightarrow>
   sendAll b messages s = (s, map SocketSend (filter (\<lambda>m. \<not> sendThrows b m) messages))"
  by (induction messages) (simp_all add: sendMessage_def)

lemma flushPendingMessages_open:
  assumes "socket s = Some OPEN" and "\<not> isReconnecting s"
  shows "flushPendingMessages b s =
           (s\<lparr>pendingMessages := []\<rparr>,
            map SocketSend (filter (\<lambda>m. \<not> sendThrows b m) (pendingMessages s)))"
proof (cases "pendingMessages s")
  case Nil
  then show ?thesis by (simp add: flushPendingMessages_def)
next
  case (Cons m ms)
  then show ?thesis
    using assms sendAll_open [of "s\<lparr>pendingMessages := []\<rparr>" b "pendingMessages s"]
    by (simp add: flushPendingMessages_def)
qed

lemma socket_onopen_open:
  assumes "socket s = Some OPEN"
  shows "socket_onopen b now s =
     (let s4 = startHeartbeat (s\<lparr>connected := True, reconnectAttempts := 0,
                                  isReconnecting := False, lastSuccessfulConnection := now,
                                  pendingMessages := []\<rparr>)
      in (s4, [ConnectionTimeoutCleared]
              @ map SocketSend (filter (\<lambda>m. \<not> sendThrows b m) (pendingMessages s))
              @ [broadcastStatusToAllTabs s4]))"
proof -
  let ?s1 = "s\<lparr>connected := True, reconnectAttempts := 0, isReconnecting := False,
               lastSuccessfulConnection := now\<rparr>"
  have "flushPendingMessages b ?s1 =
          (?s1\<lparr>pendingMessages := []\<rparr>,
           map SocketSend (filter (\<lambda>m. \<not> sendThrows b m) (pendingMessages ?s1)))"
    using assms by (intro flushPendingMessages_open) simp_all
  then show ?thesis
    by (simp add: socket_onopen_def Let_def)
qed

text \<open>
  Claim C2 asks that the open event of a reconnect re-issues a \<^verbatim>\<open>JOIN_ROOM\<close> for the current
  room. The handler clears \<open>isReconnecting\<close> before it tests \<open>roomId \<and> isReconnecting\<close>, so
  the test never holds: on an open socket the frames written are the queued messages, in
  queue order, and nothing else. The rest of the claim holds: the attempt counter is reset,
  the time of success recorded, the queue emptied and the heartbeat timer set.
\<close>

theorem C2_onopen_sends_only_the_queue:
  "socket s = Some OPEN \<longrightarrow>
     snd (socket_onopen b now s) =
       [ConnectionTimeoutCleared]
       @ map SocketSend (filter (\<lambda>m. \<not> sendThrows b m) (pendingMessages s))
       @ [broadcastStatusToAllTabs (fst (socket_onopen b now s))]
     \<and> reconnectAttempts (fst (socket_onopen b now s)) = 0
     \<and> lastSuccessfulConnection (fst (socket_onopen b now s)) = now
     \<and> heartbeatInterval (fst (socket_onopen b now s))
     \<and> pendingMessages (fst (socket_onopen b now s)) = []"
  by (simp add: socket_onopen_open Let_def startHeartbeat_def stopHeartbeat_def)

text \<open>
  The open event of the first reconnect attempt, in room \<^verbatim>\<open>ABCD1234\<close> with an empty queue:
  no frame is written, so no \<^verbatim>\<open>JOIN_ROOM\<close> reaches the relay.
\<close>

theorem C2_onopen_sends_only_the_queue_witness:
  "snd (socket_onopen \<lparr>sendThrows = (\<lambda>m. False), constructorThrows = False,
                       JSON_stringify = client_type\<rparr> 5000
         ((initial_session ''user_1'' ''c1'')
            \<lparr>socket := Some OPEN, roomId := Some ''ABCD1234'', connected := False,
             reconnectAttempts := 1, isReconnecting := True\<rparr>))
   = [ConnectionTimeoutCleared,
      BroadcastStatus (STATUS_UPDATE
        \<lparr>st_connected = True, st_roomId = Some ''ABCD1234'', st_isHost = False,
         st_userCount = 0, st_users = [], st_userId = ''user_1'', st_canControl = True,
         st_syncStatus = ''OK''\<rparr>)]"
  using C2_onopen_sends_only_the_queue
    [of "(initial_session ''user_1'' ''c1'')
            \<lparr>socket := Some OPEN, roomId := Some ''ABCD1234'', connected := False,
             reconnectAttempts := 1, isReconnecting := True\<rparr>"
        "\<lparr>sendThrows = (\<lambda>m. False), constructorThrows = False,
                       JSON_stringify = client_type\<rparr>" 5000]
  by (simp add: socket_onopen_open Let_def startHeartbeat_def stopHeartbeat_def
      initial_session_def broadcastStatusToAllTabs_def status_of_def truthy_def)

subsection \<open>Connection manager: the close event\<close>

lemma scheduledDelays_append [simp]:
  "scheduledDelays (es @ fs) = scheduledDelays es @ scheduledDelays fs"
  by (induction es rule: scheduledDelays.induct) simp_all

lemma failureNotices_append [simp]:
  "failureNotices (es @ fs) = failureNotices es + failureNotices fs"
  by (induction es rule: failureNotices.induct) simp_all

lemma roomId_stopHeartbeat [simp]: "roomId (stopHeartbeat s) = roomId s"
  and reconnectAttempts_stopHeartbeat [simp]:
    "reconnectAttempts (stopHeartbeat s) = reconnectAttempts s"
  and isHost_stopHeartbeat [simp]: "isHost (stopHeartbeat s) = isHost s"
  and userCount_stopHeartbeat [simp]: "userCount (stopHeartbeat s) = userCount s"
  and users_stopHeartbeat [simp]: "users (stopHeartbeat s) = users s"
  by (simp_all add: stopHeartbeat_def)

lemma onclose_retry:
  assumes "code \<noteq> 1000" and "truthy (roomId s)"
    and "reconnectAttempts s < MAX_RECONNECT_ATTEMPTS"
  shows "scheduledDelays (snd (socket_onclose code s)) = [reconnectDelay (reconnectAttempts s + 1)]"
    and "failureNotices (snd (socket_onclose code s)) = 0"
    and "reconnectAttempts (fst (socket_onclose code s)) = reconnectAttempts s + 1"
    and "isReconnecting (fst (socket_onclose code s))"
    and "roomId (fst (socket_onclose code s)) = roomId s"
    and "isHost (fst (socket_onclose code s)) = isHost s"
    and "userCount (fst (socket_onclose code s)) = userCount s"
    and "users (fst (socket_onclose code s)) = users s"
  using assms
  by (simp_all add: socket_onclose_def Let_def broadcastStatusToAllTabs_def)

lemma onclose_exhausted:
  assumes "code \<noteq> 1000" and "truthy (roomId s)"
    and "\<not> reconnectAttempts s < MAX_RECONNECT_ATTEMPTS"
  shows "scheduledDelays (snd (socket_onclose code s)) = []"
    and "failureNotices (snd (socket_onclose code s)) = 1"
    and "roomId (fst (socket_onclose code s)) = None"
    and "isHost (fst (socket_onclose code s)) = False"
    and "userCount (fst (socket_onclose code s)) = 0"
    and "users (fst (socket_onclose code s)) = []"
  using assms
  by (simp_all add: socket_onclose_def Let_def broadcastStatusToAllTabs_def)

lemma onclose_quiet:
  assumes "code = 1000 \<or> \<not> truthy (roomId s)"
  shows "scheduledDelays (snd (socket_onclose code s)) = []"
    and "failureNotices (snd (socket_onclose code s)) = 0"
    and "roomId (fst (socket_onclose code s)) = roomId s"
    and "reconnectAttempts (fst (socket_onclose code s)) = reconnectAttempts s"
  using assms
  by (auto simp: socket_onclose_def Let_def broadcastStatusToAllTabs_def)

lemma reconnectDelay_values:
  "map reconnectDelay [1, 2, 3, 4, 5] = [3000, 6000, 12000, 24000, 30000]"
  by (simp add: reconnectDelay_def RECONNECT_DELAY_MS_def)

lemma closeRun_no_room:
  "\<not> truthy (roomId s) \<Longrightarrow>
   scheduledDelays (snd (closeRun codes s)) = [] \<and> failureNotices (snd (closeRun codes s)) = 0"
proof (induction codes arbitrary: s)
  case Nil
  show ?case by simp
next
  case (Cons code codes)
  obtain s1 es1 where step: "socket_onclose code s = (s1, es1)" by (cases "socket_onclose code s")
  have q: "scheduledDelays es1 = []" "failureNotices es1 = 0" "roomId s1 = roomId s"
    using onclose_quiet [of code s] Cons.prems step by simp_all
  then have "\<not> truthy (roomId s1)" using Cons.prems by simp
  from Cons.IH [OF this] show ?case
    using step q by (simp add: split_beta)
qed

lemma closeRun_backoff:
  assumes "\<forall>code \<in> set codes. code \<noteq> 1000" and "truthy (roomId s)"
    and "reconnectAttempts s \<le> MAX_RECONNECT_ATTEMPTS"
    and "length codes > MAX_RECONNECT_ATTEMPTS - reconnectAttempts s"
  shows "scheduledDelays (snd (closeRun codes s))
           = map reconnectDelay [reconnectAttempts s + 1 ..< MAX_RECONNECT_ATTEMPTS + 1]
       \<and> failureNotices (snd (closeRun codes s)) = 1"
  using assms
proof (induction codes arbitrary: s)
  case Nil
  then show ?case by simp
next
  case (Cons code codes)
  obtain s1 es1 where step: "socket_onclose code s = (s1, es1)" by (cases "socket_onclose code s")
  have code: "code \<noteq> 1000" using Cons.prems(1) by simp
  show ?case
  proof (cases "reconnectAttempts s < MAX_RECONNECT_ATTEMPTS")
    case True
    have r: "scheduledDelays es1 = [reconnectDelay (reconnectAttempts s + 1)]"
      "failureNotices es1 = 0" "reconnectAttempts s1 = reconnectAttempts s + 1"
      "roomId s1 = roomId s"
      using onclose_retry [OF code Cons.prems(2) True] step by simp_all
    have "scheduledDelays (snd (closeRun codes s1))
            = map reconnectDelay [reconnectAttempts s1 + 1 ..< MAX_RECONNECT_ATTEMPTS + 1]
        \<and> failureNotices (snd (closeRun codes s1)) = 1"
      using Cons.prems True r by (intro Cons.IH) simp_all
    moreover have "[reconnectAttempts s + 1 ..< MAX_RECONNECT_ATTEMPTS + 1]
        = (reconnectAttempts s + 1) # [reconnectAttempts s1 + 1 ..< MAX_RECONNECT_ATTEMPTS + 1]"
      using True r(3) by (simp add: upt_conv_Cons)
    ultimately show ?thesis
      using step r by (simp add: split_beta)
  next
    case False
    have r: "scheduledDelays es1 = []" "failureNotices es1 = 1" "roomId s1 = None"
      using onclose_exhausted [OF code Cons.prems(2) False] step by simp_all
    then have "\<not> truthy (roomId s1)" by (simp add: truthy_def)
    from closeRun_no_room [OF this, of codes]
    show ?thesis using step r False Cons.prems(3) by (simp add: split_beta)
  qed
qed

text \<open>
  Claim C4: a close with a code other than 1000 while the room id is set and fewer than
  five attempts were made schedules one reconnect after \<open>min (3000 * 2 ^ (attempt - 1)) 30000\<close>
  ms, where \<open>attempt\<close> is the incremented counter, and keeps the room; the delays of attempts
  1 to 5 are 3000, 6000, 12000, 24000 and 30000 ms. Once five attempts were made, the close
  schedules nothing, clears \<open>roomId\<close>, \<open>isHost\<close>, \<open>userCount\<close> and \<open>users\<close>, and emits one
  \<^verbatim>\<open>failed\<close> notification. A close with code 1000, or with no room id, schedules nothing and
  emits no such notification. Over any run of more than five unclean closes from a fresh
  counter, the delays are exactly these five and the notification is emitted exactly once.
\<close>

theorem C4_reconnect_backoff:
  "(code \<noteq> 1000 \<and> truthy (roomId s) \<and> reconnectAttempts s < MAX_RECONNECT_ATTEMPTS \<longrightarrow>
      scheduledDelays (snd (socket_onclose code s))
        = [min (3000 * 2 ^ reconnectAttempts s) 30000]
      \<and> failureNotices (snd (socket_onclose code s)) = 0
      \<and> reconnectAttempts (fst (socket_onclose code s)) = reconnectAttempts s + 1
      \<and> roomId (fst (socket_onclose code s)) = roomId s)
   \<and> map reconnectDelay [1, 2, 3, 4, 5] = [3000, 6000, 12000, 24000, 30000]
   \<and> MAX_RECONNECT_ATTEMPTS = 5
   \<and> (code \<noteq> 1000 \<and> truthy (roomId s) \<and> reconnectAttempts s \<ge> MAX_RECONNECT_ATTEMPTS \<longrightarrow>
      scheduledDelays (snd (socket_onclose code s)) = []
      \<and> failureNotices (snd (socket_onclose code s)) = 1
      \<and> roomId (fst (socket_onclose code s)) = None
      \<and> isHost (fst (socket_onclose code s)) = False
      \<and> userCount (fst (socket_onclose code s)) = 0
      \<and> users (fst (socket_onclose code s)) = [])
   \<and> (code = 1000 \<or> \<not> truthy (roomId s) \<longrightarrow>
      scheduledDelays (snd (socket_onclose code s)) = []
      \<and> failureNotices (snd (socket_onclose code s)) = 0)
   \<and> ((\<forall>c \<in> set codes. c \<noteq> 1000) \<and> truthy (roomId s) \<and> reconnectAttempts s = 0
        \<and> length codes > MAX_RECONNECT_ATTEMPTS \<longrightarrow>
      scheduledDelays (snd (closeRun codes s)) = [3000, 6000, 12000, 24000, 30000]
      \<and> failureNotices (snd (closeRun codes s)) = 1)"
proof (intro conjI impI)
  assume a: "code \<noteq> 1000 \<and> truthy (roomId s) \<and> reconnectAttempts s < MAX_RECONNECT_ATTEMPTS"
  then show "scheduledDelays (snd (socket_onclose code s)) = [min (3000 * 2 ^ reconnectAttempts s) 30000]"
    using onclose_retry(1) [of code s] by (simp add: reconnectDelay_def RECONNECT_DELAY_MS_def)
  from a show "failureNotices (snd (socket_onclose code s)) = 0"
    using onclose_retry(2) [of code s] by simp
  from a show "reconnectAttempts (fst (socket_onclose code s)) = reconnectAttempts s + 1"
    using onclose_retry(3) [of code s] by simp
  from a show "roomId (fst (socket_onclose code s)) = roomId s"
    using onclose_retry(5) [of code s] by simp
next
  show "map reconnectDelay [1, 2, 3, 4, 5] = [3000, 6000, 12000, 24000, 30000]"
    by (rule reconnectDelay_values)
  show "MAX_RECONNECT_ATTEMPTS = 5" by (simp add: MAX_RECONNECT_ATTEMPTS_def)
next
  assume a: "code \<noteq> 1000 \<and> truthy (roomId s) \<and> reconnectAttempts s \<ge> MAX_RECONNECT_ATTEMPTS"
  then have b: "code \<noteq> 1000" "truthy (roomId s)" "\<not> reconnectAttempts s < MAX_RECONNECT_ATTEMPTS"
    by simp_all
  show "scheduledDelays (snd (socket_onclose code s)) = []"
    and "failureNotices (snd (socket_onclose code s)) = 1"
    and "roomId (fst (socket_onclose code s)) = None"
    and "isHost (fst (socket_onclose code s)) = False"
    and "userCount (fst (socket_onclose code s)) = 0"
    and "users (fst (socket_onclose code s)) = []"
    using onclose_exhausted [OF b] by simp_all
next
  assume a: "code = 1000 \<or> \<not> truthy (roomId s)"
  show "scheduledDelays (snd (socket_onclose code s)) = []"
    and "failureNotices (snd (socket_onclose code s)) = 0"
    using onclose_quiet [OF a] by simp_all
next
  assume a: "(\<forall>c \<in> set codes. c \<noteq> 1000) \<and> truthy (roomId s) \<and> reconnectAttempts s = 0
        \<and> length codes > MAX_RECONNECT_ATTEMPTS"
  have "[Suc 0 ..< 6] = [1, 2, 3, 4, 5]" by (simp add: upt_conv_Cons)
  then have "scheduledDelays (snd (closeRun codes s)) = [3000, 6000, 12000, 24000, 30000]
      \<and> failureNotices (snd (closeRun codes s)) = 1"
    using closeRun_backoff [of codes s] a reconnectDelay_values
    by (simp add: MAX_RECONNECT_ATTEMPTS_def)
  then show "scheduledDelays (snd (closeRun codes s)) = [3000, 6000, 12000, 24000, 30000]"
    and "failureNotices (snd (closeRun codes s)) = 1" by simp_all
qed

text \<open>A session in room \<^verbatim>\<open>ABCD1234\<close> whose sockets close seven times in a row.\<close>

theorem C4_reconnect_backoff_witness:
  fixes s0 :: SessionState
  defines "s0 \<equiv> (initial_session ''user_1'' ''c1'')
                    \<lparr>socket := Some OPEN, roomId := Some ''ABCD1234'', connected := True\<rparr>"
  shows "scheduledDelays (snd (socket_onclose 1006 s0)) = [3000]
     \<and> scheduledDelays (snd (closeRun [1006, 1006, 1001, 1006, 1011, 1006, 1006] s0))
         = [3000, 6000, 12000, 24000, 30000]
     \<and> failureNotices (snd (closeRun [1006, 1006, 1001, 1006, 1011, 1006, 1006] s0)) = 1
     \<and> failureNotices (snd (socket_onclose 1006 (s0\<lparr>reconnectAttempts := 5\<rparr>))) = 1
     \<and> roomId (fst (socket_onclose 1006 (s0\<lparr>reconnectAttempts := 5\<rparr>))) = None
     \<and> scheduledDelays (snd (socket_onclose 1000 s0)) = []"
proof -
  let ?codes = "[1006, 1006, 1001, 1006, 1011, 1006, 1006] :: nat list"
  have room: "truthy (roomId s0)" and fresh: "reconnectAttempts s0 = 0"
    by (simp_all add: s0_def initial_session_def truthy_def)
  have retry: "(1006::nat) \<noteq> 1000 \<and> truthy (roomId s0)
      \<and> reconnectAttempts s0 < MAX_RECONNECT_ATTEMPTS"
    using room fresh by (simp add: MAX_RECONNECT_ATTEMPTS_def)
  have run: "(\<forall>c \<in> set ?codes. c \<noteq> 1000) \<and> truthy (roomId s0) \<and> reconnectAttempts s0 = 0
      \<and> length ?codes > MAX_RECONNECT_ATTEMPTS"
    using room fresh by (simp add: MAX_RECONNECT_ATTEMPTS_def)
  have spent: "(1006::nat) \<noteq> 1000 \<and> truthy (roomId (s0\<lparr>reconnectAttempts := 5\<rparr>))
      \<and> reconnectAttempts (s0\<lparr>reconnectAttempts := 5\<rparr>) \<ge> MAX_RECONNECT_ATTEMPTS"
    using room by (simp add: MAX_RECONNECT_ATTEMPTS_def)
  have clean: "(1000::nat) = 1000 \<or> \<not> truthy (roomId s0)"
    by simp
  have "scheduledDelays (snd (socket_onclose 1006 s0)) = [min (3000 * 2 ^ reconnectAttempts s0) 30000]"
    using C4_reconnect_backoff [of 1006 s0 ?codes] retry by blast
  then have 1: "scheduledDelays (snd (socket_onclose 1006 s0)) = [3000]"
    by (simp add: fresh)
  have 2: "scheduledDelays (snd (closeRun ?codes s0)) = [3000, 6000, 12000, 24000, 30000]
      \<and> failureNotices (snd (closeRun ?codes s0)) = 1"
    using C4_reconnect_backoff [of 1006 s0 ?codes] run by blast
  have 3: "failureNotices (snd (socket_onclose 1006 (s0\<lparr>reconnectAttempts := 5\<rparr>))) = 1
      \<and> roomId (fst (socket_onclose 1006 (s0\<lparr>reconnectAttempts := 5\<rparr>))) = None"
    using C4_reconnect_backoff [of 1006 "s0\<lparr>reconnectAttempts := 5\<rparr>" "[]"] spent by blast
  have 4: "scheduledDelays (snd (socket_onclose 1000 s0)) = []"
    using C4_reconnect_backoff [of 1000 s0 "[]"] clean by blast
  from 1 2 3 4 show ?thesis by blast
qed

subsection \<open>Message router\<close>

text \<open>\<open>str_includes\<close> is the substring test.\<close>

lemma startsWith_iff: "startsWith str search \<longleftrightarrow> (\<exists>rest. str = search @ rest)"
  by (induction str search rule: startsWith.induct) auto

lemma str_includes_iff:
  "str_includes str search \<longleftrightarrow> (\<exists>before rest. str = before @ search @ rest)"
proof (induction str)
  case Nil
  show ?case by (cases search) auto
next
  case (Cons d ds)
  show ?case
  proof
    assume "str_includes (d # ds) search"
    then consider "startsWith (d # ds) search" | "str_includes ds search" by auto
    then show "\<exists>before rest. d # ds = before @ search @ rest"
    proof cases
      case 1
      then obtain rest where "d # ds = search @ rest" using startsWith_iff by blast
      then have "d # ds = [] @ search @ rest" by simp
      then show ?thesis by blast
    next
      case 2
      then obtain before rest where "ds = before @ search @ rest" using Cons.IH by blast
      then have "d # ds = (d # before) @ search @ rest" by simp
      then show ?thesis by blast
    qed
  next
    assume "\<exists>before rest. d # ds = before @ search @ rest"
    then obtain before rest where eq: "d # ds = before @ search @ rest" by blast
    show "str_includes (d # ds) search"
    proof (cases before)
      case Nil
      with eq have "startsWith (d # ds) search" using startsWith_iff by auto
      then show ?thesis by simp
    next
      case (Cons b bs)
      with eq have "ds = bs @ search @ rest" by simp
      then have "str_includes ds search" using Cons.IH by blast
      then show ?thesis by simp
    qed
  qed
qed

text \<open>
  Claim C7, as stated, fails: \<^verbatim>\<open>USER_LEFT\<close> takes the host flag from \<open>newHostId\<close> and leaves
  \<open>canControl\<close> alone, whatever the local participant's entry in the new list says; and
  \<^verbatim>\<open>PERMISSION_CHANGED\<close> carries no member list, leaves the session's list as it is and takes
  \<open>canControl\<close> from the message.
\<close>

theorem C7_counterexample:
  "isHost (session (fst (handleServerMessage 2000
       (UserLeftMessage ''ABCD1234'' ''user_2'' 1 (Some ''user_1'')
          [\<lparr>user_oderId = ''user_1'', user_name = ''Ann'', user_canControl = False,
            user_isHost = False\<rparr>])
       \<lparr>session = (initial_session ''user_1'' ''c1'')\<lparr>roomId := Some ''ABCD1234''\<rparr>,
        pendingOperation = None, activeTabs = []\<rparr>))) = True
   \<and> canControl (session (fst (handleServerMessage 2000
       (UserLeftMessage ''ABCD1234'' ''user_2'' 1 (Some ''user_1'')
          [\<lparr>user_oderId = ''user_1'', user_name = ''Ann'', user_canControl = False,
            user_isHost = False\<rparr>])
       \<lparr>session = (initial_session ''user_1'' ''c1'')\<lparr>roomId := Some ''ABCD1234''\<rparr>,
        pendingOperation = None, activeTabs = []\<rparr>))) = True
   \<and> find (\<lambda>u. user_oderId u = ''user_1'')
        (users (session (fst (handleServerMessage 2000
       (UserLeftMessage ''ABCD1234'' ''user_2'' 1 (Some ''user_1'')
          [\<lparr>user_oderId = ''user_1'', user_name = ''Ann'', user_canControl = False,
            user_isHost = False\<rparr>])
       \<lparr>session = (initial_session ''user_1'' ''c1'')\<lparr>roomId := Some ''ABCD1234''\<rparr>,
        pendingOperation = None, activeTabs = []\<rparr>))))
       = Some \<lparr>user_oderId = ''user_1'', user_name = ''Ann'', user_canControl = False,
               user_isHost = False\<rparr>
   \<and> users (session (fst (handleServerMessage 2000
       (PermissionChangedMessage ''ABCD1234'' ''user_1'' False)
       \<lparr>session = (initial_session ''user_1'' ''c1'')
          \<lparr>roomId := Some ''ABCD1234'',
           users := [\<lparr>user_oderId = ''user_1'', user_name = ''Ann'', user_canControl = True,
                      user_isHost = False\<rparr>]\<rparr>,
        pendingOperation = None, activeTabs = []\<rparr>)))
       = [\<lparr>user_oderId = ''user_1'', user_name = ''Ann'', user_canControl = True,
           user_isHost = False\<rparr>]
   \<and> canControl (session (fst (handleServerMessage 2000
       (PermissionChangedMessage ''ABCD1234'' ''user_1'' False)
       \<lparr>session = (initial_session ''user_1'' ''c1'')
          \<lparr>roomId := Some ''ABCD1234'',
           users := [\<lparr>user_oderId = ''user_1'', user_name = ''Ann'', user_canControl = True,
                      user_isHost = False\<rparr>]\<rparr>,
        pendingOperation = None, activeTabs = []\<rparr>))) = False"
  by (simp add: initial_session_def Let_def)

text \<open>
  Claim C7, amended: \<^verbatim>\<open>USER_JOINED\<close>, \<^verbatim>\<open>USER_LEFT\<close> and \<^verbatim>\<open>USERS_LIST\<close> replace the member list
  by the message's \<open>users\<close>. Only \<^verbatim>\<open>USERS_LIST\<close> re-derives \<open>isHost\<close> and \<open>canControl\<close> from
  the local participant's entry in that list (both stay when there is no such entry).
  \<^verbatim>\<open>USER_JOINED\<close> leaves both flags; \<^verbatim>\<open>USER_LEFT\<close> leaves \<open>canControl\<close> and sets \<open>isHost\<close> when
  \<open>newHostId\<close> is the local participant's id; \<^verbatim>\<open>PERMISSION_CHANGED\<close> leaves the member list and
  \<open>isHost\<close>, and sets \<open>canControl\<close> to the message's value when its \<open>oderId\<close> is the local
  participant's id.
\<close>

theorem C7_membership_messages:
  "(let s' = session (fst (handleServerMessage now (UserJoinedMessage room who nm cnt us) w))
    in users s' = us \<and> isHost s' = isHost (session w) \<and> canControl s' = canControl (session w))
   \<and> (let s' = session (fst (handleServerMessage now (UserLeftMessage room who cnt newHostId us) w))
      in users s' = us
         \<and> isHost s' = (if newHostId = Some (oderId (session w)) then True else isHost (session w))
         \<and> canControl s' = canControl (session w))
   \<and> (let s' = session (fst (handleServerMessage now (UsersListMessage room us) w))
      in users s' = us
         \<and> (case find (\<lambda>u. user_oderId u = oderId (session w)) us of
              Some me \<Rightarrow> isHost s' = user_isHost me \<and> canControl s' = user_canControl me
            | None \<Rightarrow> isHost s' = isHost (session w) \<and> canControl s' = canControl (session w)))
   \<and> (let s' = session (fst (handleServerMessage now (PermissionChangedMessage room who cc) w))
      in users s' = users (session w)
         \<and> isHost s' = isHost (session w)
         \<and> canControl s' = (if who = oderId (session w) then cc else canControl (session w)))"
  by (simp add: Let_def split: option.splits)

text \<open>A \<^verbatim>\<open>USERS_LIST\<close> that names the local participant host without control.\<close>

theorem C7_membership_messages_witness:
  fixes w0 :: Worker and me host :: UserInfo
  defines "w0 \<equiv> \<lparr>session = (initial_session ''user_1'' ''c1'')\<lparr>roomId := Some ''ABCD1234''\<rparr>,
                   pendingOperation = None, activeTabs = []\<rparr>"
  defines "me \<equiv> \<lparr>user_oderId = ''user_1'', user_name = ''Ann'', user_canControl = False,
                   user_isHost = True\<rparr>"
  defines "host \<equiv> \<lparr>user_oderId = ''user_2'', user_name = ''Bob'', user_canControl = True,
                   user_isHost = False\<rparr>"
  shows "users (session (fst (handleServerMessage 2000 (UsersListMessage ''ABCD1234'' [host, me]) w0)))
           = [host, me]
     \<and> isHost (session (fst (handleServerMessage 2000 (UsersListMessage ''ABCD1234'' [host, me]) w0)))
           = True
     \<and> canControl (session (fst (handleServerMessage 2000 (UsersListMessage ''ABCD1234'' [host, me]) w0)))
           = False
     \<and> isHost (session (fst (handleServerMessage 2000
           (UserJoinedMessage ''ABCD1234'' ''user_2'' ''Bob'' 2 [host, me]) w0))) = False"
proof -
  have found: "find (\<lambda>u. user_oderId u = oderId (session w0)) [host, me] = Some me"
    by (simp add: w0_def initial_session_def host_def me_def)
  have flags: "user_isHost me = True" "user_canControl me = False" "isHost (session w0) = False"
    by (simp_all add: me_def w0_def initial_session_def)
  show ?thesis
    using C7_membership_messages [of 2000 "''ABCD1234''" "''user_2''" "''Bob''" 2 "[host, me]" w0]
      found flags
    by (simp add: Let_def)
qed

text \<open>
  Claim C8: a relayed \<^verbatim>\<open>SYNC_EVENT\<close> or \<^verbatim>\<open>NAVIGATE\<close> whose \<open>oderId\<close> is the local participant's
  id starts no notification at all (and changes nothing); with any other \<open>oderId\<close> the
  handler starts exactly one \<open>forwardToAllTabs\<close>, of \<^verbatim>\<open>APPLY_SYNC\<close> with the event or of
  \<^verbatim>\<open>NAVIGATE\<close> with the navigation, and leaves the set of active tabs as it is; and
  \<open>forwardToAllTabs\<close> sends its message to every active tab.
\<close>

theorem C8_echo_suppressed:
  "(m_oderId = oderId (session w) \<longrightarrow>
      handleServerMessage now (ServerSyncEventMessage room m_oderId event) w = (w, [])
      \<and> handleServerMessage now (ServerNavigateMessage room m_oderId navigation) w = (w, []))
   \<and> (m_oderId \<noteq> oderId (session w) \<longrightarrow>
      snd (handleServerMessage now (ServerSyncEventMessage room m_oderId event) w)
        = [ForwardToAllTabs (APPLY_SYNC event)]
      \<and> snd (handleServerMessage now (ServerNavigateMessage room m_oderId navigation) w)
        = [ForwardToAllTabs (NAVIGATE navigation)]
      \<and> activeTabs (fst (handleServerMessage now (ServerSyncEventMessage room m_oderId event) w)) = activeTabs w
      \<and> activeTabs (fst (handleServerMessage now (ServerNavigateMessage room m_oderId navigation) w)) = activeTabs w)
   \<and> (\<forall>tabId \<in> set tabs. (Tab tabId, message) \<in> set (fst (forwardToAllTabs dead message tabs)))"
  by (auto simp: Let_def forwardToAllTabs_def)

text \<open>An echo and a peer's event with two active tabs, one of them dead.\<close>

theorem C8_echo_suppressed_witness:
  fixes w0 :: Worker and ev :: SyncEvent and nav :: NavigationEvent
  defines "w0 \<equiv> \<lparr>session = (initial_session ''user_1'' ''c1'')\<lparr>roomId := Some ''ABCD1234''\<rparr>,
                   pendingOperation = None, activeTabs = [3, 8]\<rparr>"
  defines "ev \<equiv> \<lparr>ev_type = PLAY, ev_time = 12.5, ev_timestamp = 1000, ev_videoId = None\<rparr>"
  defines "nav \<equiv> \<lparr>nav_url = ''https://www.youtube.com/watch?v=abc'', nav_platform = youtube,
                    nav_timestamp = 1000\<rparr>"
  shows "handleServerMessage 2000 (ServerSyncEventMessage ''ABCD1234'' ''user_1'' ev) w0 = (w0, [])
     \<and> handleServerMessage 2000 (ServerNavigateMessage ''ABCD1234'' ''user_1'' nav) w0 = (w0, [])
     \<and> snd (handleServerMessage 2000 (ServerSyncEventMessage ''ABCD1234'' ''user_2'' ev) w0)
         = [ForwardToAllTabs (APPLY_SYNC ev)]
     \<and> snd (handleServerMessage 2000 (ServerNavigateMessage ''ABCD1234'' ''user_2'' nav) w0)
         = [ForwardToAllTabs (NAVIGATE nav)]
     \<and> (Tab 3, APPLY_SYNC ev) \<in> set (fst (forwardToAllTabs (\<lambda>t. t = 8) (APPLY_SYNC ev) [3, 8]))
     \<and> (Tab 8, APPLY_SYNC ev) \<in> set (fst (forwardToAllTabs (\<lambda>t. t = 8) (APPLY_SYNC ev) [3, 8]))"
proof -
  have own: "''user_1'' = oderId (session w0)" and other: "''user_2'' \<noteq> oderId (session w0)"
    by (simp_all add: w0_def initial_session_def)
  have 1: "handleServerMessage 2000 (ServerSyncEventMessage ''ABCD1234'' ''user_1'' ev) w0 = (w0, [])
     \<and> handleServerMessage 2000 (ServerNavigateMessage ''ABCD1234'' ''user_1'' nav) w0 = (w0, [])"
    using C8_echo_suppressed [of "''user_1''" w0 2000 "''ABCD1234''" ev nav "[3, 8]" "APPLY_SYNC ev" "\<lambda>t. t = 8"]
      own by blast
  have 2: "snd (handleServerMessage 2000 (ServerSyncEventMessage ''ABCD1234'' ''user_2'' ev) w0)
         = [ForwardToAllTabs (APPLY_SYNC ev)]
     \<and> snd (handleServerMessage 2000 (ServerNavigateMessage ''ABCD1234'' ''user_2'' nav) w0)
         = [ForwardToAllTabs (NAVIGATE nav)]"
    using C8_echo_suppressed [of "''user_2''" w0 2000 "''ABCD1234''" ev nav "[3, 8]" "APPLY_SYNC ev" "\<lambda>t. t = 8"]
      other by blast
  have "\<forall>tabId \<in> set [3, 8]. (Tab tabId, APPLY_SYNC ev)
          \<in> set (fst (forwardToAllTabs (\<lambda>t. t = 8) (APPLY_SYNC ev) [3, 8]))"
    using C8_echo_suppressed [of "''user_2''" w0 2000 "''ABCD1234''" ev nav "[3, 8]" "APPLY_SYNC ev" "\<lambda>t. t = 8"]
    by blast
  then have 3: "(Tab 3, APPLY_SYNC ev) \<in> set (fst (forwardToAllTabs (\<lambda>t. t = 8) (APPLY_SYNC ev) [3, 8]))
     \<and> (Tab 8, APPLY_SYNC ev) \<in> set (fst (forwardToAllTabs (\<lambda>t. t = 8) (APPLY_SYNC ev) [3, 8]))"
    by simp
  from 1 2 3 show ?thesis by blast
qed

text \<open>
  Claim C9: every \<^verbatim>\<open>ERROR\<close> message releases the room operation lock; when its code is
  \<^verbatim>\<open>ROOM_NOT_FOUND\<close> or its text includes \<^verbatim>\<open>does not exist\<close>, the room state is cleared as
  well: \<open>roomId\<close> null, \<open>isHost\<close> false, \<open>userCount\<close> 0, \<open>users\<close> empty.
\<close>

theorem C9_error_releases_lock:
  "pendingOperation (fst (handleServerMessage now (ErrorMessage code message) w)) = None
   \<and> (code = ''ROOM_NOT_FOUND'' \<or> str_includes message ''does not exist''
      \<longrightarrow> roomId (session (fst (handleServerMessage now (ErrorMessage code message) w))) = None
        \<and> isHost (session (fst (handleServerMessage now (ErrorMessage code message) w))) = False
        \<and> userCount (session (fst (handleServerMessage now (ErrorMessage code message) w))) = 0
        \<and> users (session (fst (handleServerMessage now (ErrorMessage code message) w))) = [])"
  by (simp add: releaseRoomLock_def Let_def)

text \<open>A failed join held by the lock, reported by text and reported by code.\<close>

theorem C9_error_releases_lock_witness:
  fixes w0 :: Worker
  defines "w0 \<equiv> \<lparr>session = (initial_session ''user_1'' ''c1'')
                               \<lparr>roomId := Some ''ABCD1234'', isHost := True, userCount := 1\<rparr>,
                   pendingOperation =
                     Some \<lparr>op_type = JOIN_ROOM, op_timestamp = 1000, op_roomId = Some ''WXYZ5678''\<rparr>,
                   activeTabs = [3]\<rparr>"
  shows "pendingOperation
           (fst (handleServerMessage 2000 (ErrorMessage ''JOIN_FAILED'' ''Room WXYZ5678 does not exist'') w0))
         = None
     \<and> roomId (session
           (fst (handleServerMessage 2000 (ErrorMessage ''JOIN_FAILED'' ''Room WXYZ5678 does not exist'') w0)))
         = None
     \<and> roomId (session (fst (handleServerMessage 2000 (ErrorMessage ''ROOM_NOT_FOUND'' ''gone'') w0)))
         = None
     \<and> userCount (session (fst (handleServerMessage 2000 (ErrorMessage ''ROOM_NOT_FOUND'' ''gone'') w0)))
         = 0"
proof -
  have hit: "str_includes ''Room WXYZ5678 does not exist'' ''does not exist''"
    by simp
  have 1: "pendingOperation
           (fst (handleServerMessage 2000 (ErrorMessage ''JOIN_FAILED'' ''Room WXYZ5678 does not exist'') w0))
         = None
     \<and> roomId (session
           (fst (handleServerMessage 2000 (ErrorMessage ''JOIN_FAILED'' ''Room WXYZ5678 does not exist'') w0)))
         = None"
    using C9_error_releases_lock [of 2000 "''JOIN_FAILED''" "''Room WXYZ5678 does not exist''" w0] hit
    by blast
  have 2: "roomId (session (fst (handleServerMessage 2000 (ErrorMessage ''ROOM_NOT_FOUND'' ''gone'') w0)))
         = None
     \<and> userCount (session (fst (handleServerMessage 2000 (ErrorMessage ''ROOM_NOT_FOUND'' ''gone'') w0)))
         = 0"
    using C9_error_releases_lock [of 2000 "''ROOM_NOT_FOUND''" "''gone''" w0]
    by blast
  from 1 2 show ?thesis by blast
qed

text \<open>
  Claim C10: an \<^verbatim>\<open>ERROR\<close> message whose code is not \<^verbatim>\<open>ROOM_NOT_FOUND\<close> and whose text does not
  include \<^verbatim>\<open>does not exist\<close> changes the lock only: the worker afterwards is the worker before
  with \<open>pendingOperation\<close> cleared, so every field of the session and the active tabs are
  as before.
\<close>

theorem C10_error_frame:
  "code \<noteq> ''ROOM_NOT_FOUND'' \<and> \<not> str_includes message ''does not exist''
   \<longrightarrow> fst (handleServerMessage now (ErrorMessage code message) w) = w\<lparr>pendingOperation := None\<rparr>
       \<and> session (fst (handleServerMessage now (ErrorMessage code message) w)) = session w
       \<and> activeTabs (fst (handleServerMessage now (ErrorMessage code message) w)) = activeTabs w"
  by (simp add: releaseRoomLock_def Let_def)

text \<open>A \<^verbatim>\<open>ROOM_FULL\<close> error while in a room with a join pending.\<close>

theorem C10_error_frame_witness:
  fixes w0 :: Worker
  defines "w0 \<equiv> \<lparr>session = (initial_session ''user_1'' ''c1'')
                               \<lparr>roomId := Some ''ABCD1234'', isHost := True, userCount := 1\<rparr>,
                   pendingOperation =
                     Some \<lparr>op_type = JOIN_ROOM, op_timestamp = 1000, op_roomId = Some ''WXYZ5678''\<rparr>,
                   activeTabs = [3]\<rparr>"
  shows "fst (handleServerMessage 2000 (ErrorMessage ''ROOM_FULL'' ''Room is full'') w0)
           = w0\<lparr>pendingOperation := None\<rparr>
     \<and> roomId (session (fst (handleServerMessage 2000 (ErrorMessage ''ROOM_FULL'' ''Room is full'') w0)))
           = Some ''ABCD1234''"
proof -
  have other: "''ROOM_FULL'' \<noteq> ''ROOM_NOT_FOUND'' \<and> \<not> str_includes ''Room is full'' ''does not exist''"
    by simp
  have 1: "fst (handleServerMessage 2000 (ErrorMessage ''ROOM_FULL'' ''Room is full'') w0)
           = w0\<lparr>pendingOperation := None\<rparr>"
    using C10_error_frame [of "''ROOM_FULL''" "''Room is full''" 2000 w0] other by blast
  then have "roomId (session (fst (handleServerMessage 2000 (ErrorMessage ''ROOM_FULL'' ''Room is full'') w0)))
           = roomId (session w0)"
    by simp
  then have 2: "roomId (session (fst (handleServerMessage 2000 (ErrorMessage ''ROOM_FULL'' ''Room is full'') w0)))
           = Some ''ABCD1234''"
    by (simp add: w0_def)
  from 1 2 show ?thesis by blast
qed

end
